theory Spec2Isabelle
  imports Main "HOL-Library.Sublist"
begin

section \<open>Python strings and the runtime they depend on\<close>

text \<open>
  A Python \<open>str\<close> is a sequence of Unicode code points, so it is modelled as a list of
  natural numbers. \<open>U\<close> turns an ASCII literal into such a list. The Korean literals of
  the source are written out as code points.
\<close>

type_synonym ustring = "nat list"

definition U :: "string \<Rightarrow> ustring" where
  "U s = map of_char s"

text \<open>
  What the source takes from outside \<open>news_bot.py\<close> and what depends on the interpreter's
  Unicode tables is collected in a record of parameters:
  \<^item> \<open>digit_tbl\<close>, \<open>decimal_tbl\<close>, \<open>space_tbl\<close>: \<open>str.isdigit\<close>, the decimal value of a
    digit and \<open>str.isspace\<close> on the code points from 128 up (the ASCII range is fixed below);
  \<^item> \<open>lower\<close>: \<open>str.lower\<close>;
  \<^item> \<open>max_str_digits\<close>: the interpreter's limit on the number of digits \<open>int\<close> accepts
    (\<open>0\<close>: no limit; the interpreter admits no limit below 640, so a smaller value is
    read as 640);
  \<^item> \<open>at_valid\<close>: whether \<open>Job.at\<close> of the \<open>schedule\<close> package accepts a time string
    (it raises \<open>ScheduleValueError\<close> otherwise);
  \<^item> \<open>next_at\<close>: the first moment after a clock reading at which the wall clock
    shows a given time of day.
\<close>

record runtime =
  digit_tbl :: "nat \<Rightarrow> bool"
  decimal_tbl :: "nat \<Rightarrow> nat option"
  space_tbl :: "nat \<Rightarrow> bool"
  lower :: "ustring \<Rightarrow> ustring"
  max_str_digits :: nat
  at_valid :: "ustring \<Rightarrow> bool"
  next_at :: "nat \<Rightarrow> ustring \<Rightarrow> nat"

definition isdigit :: "runtime \<Rightarrow> nat \<Rightarrow> bool" where
  "isdigit rt c = (if c < 128 then 48 \<le> c \<and> c \<le> 57 else digit_tbl rt c)"

definition isspace :: "runtime \<Rightarrow> nat \<Rightarrow> bool" where
  "isspace rt c =
     (if c < 128 then (9 \<le> c \<and> c \<le> 13) \<or> (28 \<le> c \<and> c \<le> 32) else space_tbl rt c)"

definition strip :: "runtime \<Rightarrow> ustring \<Rightarrow> ustring" where
  "strip rt s = rev (dropWhile (isspace rt) (rev (dropWhile (isspace rt) s)))"

text \<open>
  \<open>int(s)\<close> in base 10: white space around the literal (in the ASCII range only
  \<open>\t \n \v \f \r\<close> and the blank), one optional sign, then decimal digits with single
  underscores between them; a code point from 128 up counts as white space first and
  as a digit second. \<open>None\<close> is \<open>ValueError\<close>.
\<close>

definition int_space :: "runtime \<Rightarrow> nat \<Rightarrow> bool" where
  "int_space rt c = (if c < 128 then (9 \<le> c \<and> c \<le> 13) \<or> c = 32 else space_tbl rt c)"

definition decimal :: "runtime \<Rightarrow> nat \<Rightarrow> nat option" where
  "decimal rt c =
     (if c < 128 then (if 48 \<le> c \<and> c \<le> 57 then Some (c - 48) else None)
      else if space_tbl rt c then None else decimal_tbl rt c)"

fun digits_ok :: "runtime \<Rightarrow> bool \<Rightarrow> ustring \<Rightarrow> bool" where
  "digits_ok rt after_digit [] = after_digit"
| "digits_ok rt after_digit (c # cs) =
     (if c = 95 then after_digit \<and> digits_ok rt False cs
      else decimal rt c \<noteq> None \<and> digits_ok rt True cs)"

fun digits_value :: "runtime \<Rightarrow> nat \<Rightarrow> ustring \<Rightarrow> nat" where
  "digits_value rt acc [] = acc"
| "digits_value rt acc (c # cs) =
     (case decimal rt c of
        None \<Rightarrow> digits_value rt acc cs
      | Some d \<Rightarrow> digits_value rt (10 * acc + d) cs)"

definition py_int :: "runtime \<Rightarrow> ustring \<Rightarrow> int option" where
  "py_int rt s =
     (let t = rev (dropWhile (int_space rt) (rev (dropWhile (int_space rt) s)));
          neg = (t \<noteq> [] \<and> hd t = 45);
          body = (if t \<noteq> [] \<and> (hd t = 45 \<or> hd t = 43) then tl t else t);
          n = length (filter (\<lambda>c. c \<noteq> 95) body)
      in if \<not> digits_ok rt False body then None
         else if 0 < max_str_digits rt \<and> max (max_str_digits rt) 640 < n then None
         else Some (if neg then - int (digits_value rt 0 body) else int (digits_value rt 0 body)))"

text \<open>The keyword lists of \<open>handle_message\<close> (lines 101 and 128).\<close>

definition cancel_keywords :: "ustring list" where
  "cancel_keywords = [[50500, 45768], [52712, 49548], [54596, 50836, 50630, 50612]]"

definition affirmatives :: "ustring list" where
  "affirmatives = [[45348], [50696], [51025], [47582, 50500]]"

section \<open>Data model\<close>

text \<open>
  A session's entry of \<open>conversation_state\<close> is a dict with the keys \<open>schedules\<close> and
  \<open>current_task\<close>; a schedule is a dict with the keys \<open>company_name\<close> and
  \<open>schedule_time\<close>; a task is a dict that always has \<open>step\<close> and may have
  \<open>company_name\<close>, \<open>schedule_time\<close> and \<open>company_to_cancel\<close> (\<open>None\<close>: key absent).
  The source only ever stores the five step names below, so its last
  \<open>return\<close> (line 152, unknown step) has no counterpart here.
\<close>

datatype step =
    AwaitingCompanyName
  | AwaitingScheduleTime
  | AwaitingCancellationChoice
  | AwaitingCancellationConfirmation
  | AwaitingReportTestChoice

record task =
  step :: step
  task_company_name :: "ustring option"
  task_schedule_time :: "ustring option"
  company_to_cancel :: "ustring option"

record schedule =
  company_name :: ustring
  schedule_time :: ustring

record session_state =
  schedules :: "schedule list"
  current_task :: "task option"

text \<open>
  A job of the \<open>schedule\<close> package as the source creates it: the unit is always days,
  \<open>job_func\<close> is the bound method with its keyword arguments (session id, company
  name), \<open>tags\<close> is the set built by \<open>.tag(session_id, company_name, kind)\<close>.
  Times are seconds on the clock.
\<close>

datatype job_func =
    SendDailySummary ustring ustring
  | SendWeeklyReport ustring ustring

record job =
  interval :: nat
  at_time :: "ustring option"
  job_func :: job_func
  tags :: "ustring set"
  next_run :: nat

text \<open>
  The bot: the session dict, the scheduler's job list, and a log of the handlers that
  were called (each call starts one background thread; the log keeps the order of the
  calls, not what the threads do).
\<close>

record bot =
  conversation_state :: "ustring \<rightharpoonup> session_state"
  scheduler :: "job list"
  started :: "job_func list"

text \<open>
  Exceptions: whatever a collaborator raises (told apart by a number),
  \<open>ScheduleValueError\<close> from \<open>Job.at\<close>, and \<open>KeyError\<close> from a task dict.
\<close>

datatype error = CollaboratorError nat | ScheduleValueError | KeyError

text \<open>
  The collaborators: \<open>NewsDatabaseManager.search_news(keywords, date, limit)\<close> (the date
  is the clock reading it is formatted from), \<open>_fetch_news_content(url)\<close>, \<open>LLM.run\<close>, and
  the template \<open>news_summary_prompt.format(title, content, url)\<close>. An article is a dict
  that may have \<open>title\<close>, \<open>link\<close> and \<open>content\<close>.
\<close>

record article =
  title :: "ustring option"
  link :: "ustring option"
  content :: "ustring option"

record collaborators =
  search_news :: "ustring list \<Rightarrow> nat \<Rightarrow> nat \<Rightarrow> error + article list"
  fetch_news_content :: "ustring \<Rightarrow> error + ustring"
  llm_run :: "ustring \<Rightarrow> error + ustring"
  news_summary_prompt :: "ustring \<Rightarrow> ustring \<Rightarrow> ustring \<Rightarrow> ustring"

text \<open>
  The texts the source returns. Each constructor is one string literal or f-string of
  \<open>news_bot.py\<close> and carries the values the f-string interpolates; the line numbers are
  those of the source.
\<close>

datatype summary_text =
    NotFoundText \<comment> \<open>line 161\<close>
  | ContentUnavailable ustring \<comment> \<open>line 166: title\<close>
  | SummaryWithSource ustring ustring \<comment> \<open>line 169: summary, url\<close>

datatype reply =
    AskCompanyName \<comment> \<open>line 31\<close>
  | NoSchedules \<comment> \<open>line 38\<close>
  | ConfirmCancellation ustring \<comment> \<open>lines 46 and 123: company\<close>
  | ChooseCancellation "schedule list" \<comment> \<open>line 50: the numbered options\<close>
  | RegisterFirst \<comment> \<open>line 70\<close>
  | ReportTriggered ustring \<comment> \<open>lines 75 and 146: company\<close>
  | ChooseReportTest "schedule list" \<comment> \<open>line 80\<close>
  | NoActiveTask \<comment> \<open>line 86\<close>
  | SummaryFailed summary_text \<comment> \<open>line 96: the summarizer's text as it is\<close>
  | SummaryAndAskTime ustring summary_text \<comment> \<open>lines 98-99: company, summary\<close>
  | SchedulingCancelled \<comment> \<open>line 103\<close>
  | TimeFormatError \<comment> \<open>line 107\<close>
  | Scheduled ustring ustring \<comment> \<open>line 112: time, company\<close>
  | InvalidNumber \<comment> \<open>lines 124 and 148\<close>
  | EnterNumber \<comment> \<open>lines 125 and 150\<close>
  | Cancelled "ustring option" \<comment> \<open>line 132: company (\<open>None\<close> prints as such)\<close>
  | ScheduleKept \<comment> \<open>line 135\<close>

section \<open>The scheduler\<close>

text \<open>
  Modelled from the spec: the \<open>schedule\<close> package is not part of the sources. Its
  \<open>Scheduler\<close> keeps a list of jobs; \<open>every(n).days[.at(t)].do(f).tag(...)\<close> appends one
  job to it; \<open>clear(tag)\<close> keeps the jobs that do not carry the tag (all jobs go when the
  tag is \<open>None\<close>); \<open>run_pending\<close> calls the handler of every job whose due time has
  come, earliest first, and moves that job's due time on by its period. A tag is "an
  identifier attached to a job for later bulk lookup/removal, not a unique job key".
  The handlers of the source start a thread and return nothing, so no job is
  removed by \<open>run_pending\<close>.
\<close>

definition day :: nat where
  "day = 86400"

definition first_run :: "runtime \<Rightarrow> nat \<Rightarrow> nat \<Rightarrow> ustring option \<Rightarrow> nat" where
  "first_run rt now n t = (case t of None \<Rightarrow> now + n * day | Some hhmm \<Rightarrow> next_at rt now hhmm)"

definition clear :: "ustring option \<Rightarrow> job list \<Rightarrow> job list" where
  "clear tag js = (case tag of None \<Rightarrow> [] | Some t \<Rightarrow> filter (\<lambda>j. t \<notin> tags j) js)"

definition should_run :: "nat \<Rightarrow> job \<Rightarrow> bool" where
  "should_run now j = (next_run j \<le> now)"

definition run_job :: "runtime \<Rightarrow> nat \<Rightarrow> job \<Rightarrow> job" where
  "run_job rt now j = j\<lparr>next_run := first_run rt now (interval j) (at_time j)\<rparr>"

definition run_pending :: "runtime \<Rightarrow> nat \<Rightarrow> job list \<Rightarrow> job list \<times> job list" where
  "run_pending rt now js =
     (sort_key next_run (filter (should_run now) js),
      map (\<lambda>j. if should_run now j then run_job rt now j else j) js)"

text \<open>
  \<open>run_scheduler\<close> calls \<open>run_pending\<close> for ever; \<open>run_scheduler_at\<close> is the loop run at
  the given clock readings, returning the jobs it dispatched in order and the
  job list it leaves.
\<close>

fun run_scheduler_at :: "runtime \<Rightarrow> nat list \<Rightarrow> job list \<Rightarrow> job list \<times> job list" where
  "run_scheduler_at rt [] js = ([], js)"
| "run_scheduler_at rt (now # later) js =
     (let (ran, js1) = run_pending rt now js;
          (ran_later, js2) = run_scheduler_at rt later js1
      in (ran @ ran_later, js2))"

text \<open>\<open>_schedule_jobs\<close> (lines 171-174); the \<open>print\<close> is left out.\<close>

definition daily_job :: "runtime \<Rightarrow> nat \<Rightarrow> ustring \<Rightarrow> ustring \<Rightarrow> ustring \<Rightarrow> job" where
  "daily_job rt now session_id company t =
     \<lparr>interval = 1, at_time = Some t, job_func = SendDailySummary session_id company,
      tags = {session_id, company, U ''daily''}, next_run = first_run rt now 1 (Some t)\<rparr>"

definition weekly_job :: "runtime \<Rightarrow> nat \<Rightarrow> ustring \<Rightarrow> ustring \<Rightarrow> job" where
  "weekly_job rt now session_id company =
     \<lparr>interval = 7, at_time = None, job_func = SendWeeklyReport session_id company,
      tags = {session_id, company, U ''weekly''}, next_run = first_run rt now 7 None\<rparr>"

definition schedule_jobs ::
  "runtime \<Rightarrow> nat \<Rightarrow> ustring \<Rightarrow> ustring \<Rightarrow> ustring \<Rightarrow> job list \<Rightarrow> error + job list" where
  "schedule_jobs rt now session_id company t js =
     (if \<not> at_valid rt t then Inl ScheduleValueError
      else Inr (js @ [daily_job rt now session_id company t,
                      weekly_job rt now session_id company]))"

text \<open>One call after another: the second runs where the first did not raise.\<close>

definition and_then :: "error + 'a \<Rightarrow> ('a \<Rightarrow> error + 'b) \<Rightarrow> error + 'b" where
  "and_then r f = (case r of Inl e \<Rightarrow> Inl e | Inr x \<Rightarrow> f x)"

text \<open>
  The jobs that call a given handler, and the jobs that carry both tags of a
  (session, subject) pair.
\<close>

definition jobs_calling :: "job_func \<Rightarrow> job list \<Rightarrow> job list" where
  "jobs_calling f js = filter (\<lambda>j. job_func j = f) js"

definition jobs_tagged :: "ustring \<Rightarrow> ustring \<Rightarrow> job list \<Rightarrow> job list" where
  "jobs_tagged session_id company js =
     filter (\<lambda>j. session_id \<in> tags j \<and> company \<in> tags j) js"

section \<open>The article summarizer\<close>

text \<open>
  \<open>_fetch_and_summarize_latest_news\<close> (lines 157-169). The function has no
  \<open>try\<close>: an exception of a collaborator is the function's own result. A missing
  title reads as the default of line 163, a missing link as the empty string; the text
  is the article's own when it is there and not empty, else what the News Store fetches.
\<close>

definition no_title :: ustring where
  "no_title = [51228, 47785, 32, 50630, 51020]"

text \<open>\<open>latest_news.get(key, default)\<close> for the three keys (the default of \<open>content\<close> is falsy).\<close>

definition get_title :: "article \<Rightarrow> ustring" where
  "get_title a = (case title a of None \<Rightarrow> no_title | Some t \<Rightarrow> t)"

definition get_link :: "article \<Rightarrow> ustring" where
  "get_link a = (case link a of None \<Rightarrow> [] | Some u \<Rightarrow> u)"

definition get_content :: "article \<Rightarrow> ustring" where
  "get_content a = (case content a of None \<Rightarrow> [] | Some c \<Rightarrow> c)"

definition fetch_and_summarize_latest_news ::
  "collaborators \<Rightarrow> nat \<Rightarrow> ustring \<Rightarrow> error + summary_text \<times> bool" where
  "fetch_and_summarize_latest_news co now company =
     (case search_news co [company] now 1 of
        Inl e \<Rightarrow> Inl e
      | Inr news_list \<Rightarrow>
          (case news_list of
             [] \<Rightarrow> Inr (NotFoundText, False)
           | latest_news # _ \<Rightarrow>
               (let ttl = get_title latest_news;
                    url = get_link latest_news
                in case (if get_content latest_news \<noteq> [] then Inr (get_content latest_news)
                         else fetch_news_content co url) of
                     Inl e \<Rightarrow> Inl e
                   | Inr body \<Rightarrow>
                       if body = [] then Inr (ContentUnavailable ttl, False)
                       else (case llm_run co (news_summary_prompt co ttl body url) of
                               Inl e \<Rightarrow> Inl e
                             | Inr summary \<Rightarrow> Inr (SummaryWithSource summary url, True)))))"

section \<open>The conversation state machine\<close>

definition new_session :: session_state where
  "new_session = \<lparr>schedules = [], current_task = None\<rparr>"

text \<open>\<open>_get_session_state\<close> (lines 20-26): an unknown session id gets a fresh entry.\<close>

definition get_session_state :: "ustring \<Rightarrow> bot \<Rightarrow> session_state \<times> bot" where
  "get_session_state session_id b =
     (case conversation_state b session_id of
        None \<Rightarrow> (new_session,
                  b\<lparr>conversation_state := (conversation_state b)(session_id \<mapsto> new_session)\<rparr>)
      | Some st \<Rightarrow> (st, b))"

text \<open>
  The source mutates the dict it got from \<open>_get_session_state\<close> in place;
  \<open>put_session\<close> is that write.
\<close>

definition put_session :: "ustring \<Rightarrow> session_state \<Rightarrow> bot \<Rightarrow> bot" where
  "put_session session_id st b =
     b\<lparr>conversation_state := (conversation_state b)(session_id \<mapsto> st)\<rparr>"

definition new_task :: "step \<Rightarrow> task" where
  "new_task s = \<lparr>step = s, task_company_name = None, task_schedule_time = None,
                 company_to_cancel = None\<rparr>"

text \<open>\<open>start_conversation\<close> (lines 28-31).\<close>

definition start_conversation :: "ustring \<Rightarrow> bot \<Rightarrow> reply \<times> bot" where
  "start_conversation session_id b =
     (let (st, b1) = get_session_state session_id b
      in (AskCompanyName,
          put_session session_id (st\<lparr>current_task := Some (new_task AwaitingCompanyName)\<rparr>) b1))"

text \<open>\<open>start_cancellation\<close> (lines 33-50).\<close>

definition start_cancellation :: "ustring \<Rightarrow> bot \<Rightarrow> reply \<times> bot" where
  "start_cancellation session_id b =
     (let (st, b1) = get_session_state session_id b
      in case schedules st of
           [] \<Rightarrow> (NoSchedules, put_session session_id (st\<lparr>current_task := None\<rparr>) b1)
         | [s] \<Rightarrow>
             (ConfirmCancellation (company_name s),
              put_session session_id
                (st\<lparr>current_task := Some ((new_task AwaitingCancellationConfirmation)
                       \<lparr>company_to_cancel := Some (company_name s)\<rparr>)\<rparr>) b1)
         | _ \<Rightarrow>
             (ChooseCancellation (schedules st),
              put_session session_id
                (st\<lparr>current_task := Some (new_task AwaitingCancellationChoice)\<rparr>) b1))"

text \<open>
  \<open>_send_weekly_report\<close> (lines 185-186) starts the report thread; the model logs the
  call.
\<close>

definition send_weekly_report :: "ustring \<Rightarrow> ustring \<Rightarrow> bot \<Rightarrow> bot" where
  "send_weekly_report session_id company b =
     b\<lparr>started := started b @ [SendWeeklyReport session_id company]\<rparr>"

text \<open>\<open>trigger_weekly_report\<close> (lines 64-80).\<close>

definition trigger_weekly_report :: "ustring \<Rightarrow> bot \<Rightarrow> reply \<times> bot" where
  "trigger_weekly_report session_id b =
     (let (st, b1) = get_session_state session_id b
      in case schedules st of
           [] \<Rightarrow> (RegisterFirst, b1)
         | [s] \<Rightarrow> (ReportTriggered (company_name s),
                   send_weekly_report session_id (company_name s) b1)
         | _ \<Rightarrow>
             (ChooseReportTest (schedules st),
              put_session session_id
                (st\<lparr>current_task := Some (new_task AwaitingReportTestChoice)\<rparr>) b1))"

text \<open>
  \<open>handle_message\<close> (lines 82-152), one definition for each branch of its \<open>if\<close> chain.
  A branch gets the session's state and its task as \<open>handle_message\<close> read them and
  returns the reply, or the exception, together with the bot as the branch left it:
  what was written before an exception was raised stays written.
\<close>

definition on_company_name ::
  "collaborators \<Rightarrow> runtime \<Rightarrow> nat \<Rightarrow> ustring \<Rightarrow> ustring \<Rightarrow> session_state \<Rightarrow> task \<Rightarrow> bot
     \<Rightarrow> (error + reply) \<times> bot" where
  "on_company_name co rt now session_id user_input st tk b =
     (let company = strip rt user_input;
          tk1 = tk\<lparr>task_company_name := Some company\<rparr>;
          b1 = put_session session_id (st\<lparr>current_task := Some tk1\<rparr>) b
      in case fetch_and_summarize_latest_news co now company of
           Inl e \<Rightarrow> (Inl e, b1)
         | Inr (summary, news_found) \<Rightarrow>
             if \<not> news_found
             then (Inr (SummaryFailed summary),
                   put_session session_id (st\<lparr>current_task := None\<rparr>) b1)
             else (Inr (SummaryAndAskTime company summary),
                   put_session session_id
                     (st\<lparr>current_task := Some (tk1\<lparr>step := AwaitingScheduleTime\<rparr>)\<rparr>) b1))"

text \<open>Lines 104-107: the time string, or \<open>None\<close> where the source returns the format error.\<close>

definition parse_schedule_time :: "runtime \<Rightarrow> ustring \<Rightarrow> ustring option" where
  "parse_schedule_time rt user_input =
     (let schedule_time_str = filter (isdigit rt) user_input
      in if length schedule_time_str = 2 then Some (schedule_time_str @ U '':00'')
         else if length schedule_time_str = 4
         then Some (take 2 schedule_time_str @ U '':'' @ drop 2 schedule_time_str)
         else None)"

definition on_schedule_time ::
  "runtime \<Rightarrow> nat \<Rightarrow> ustring \<Rightarrow> ustring \<Rightarrow> session_state \<Rightarrow> task \<Rightarrow> bot
     \<Rightarrow> (error + reply) \<times> bot" where
  "on_schedule_time rt now session_id user_input st tk b =
     (if list_ex (\<lambda>keyword. sublist keyword user_input) cancel_keywords
      then (Inr SchedulingCancelled, put_session session_id (st\<lparr>current_task := None\<rparr>) b)
      else case parse_schedule_time rt user_input of
             None \<Rightarrow> (Inr TimeFormatError, b)
           | Some t \<Rightarrow>
               (let tk1 = tk\<lparr>task_schedule_time := Some t\<rparr>;
                    st1 = st\<lparr>current_task := Some tk1\<rparr>
                in case task_company_name tk1 of
                     None \<Rightarrow> (Inl KeyError, put_session session_id st1 b)
                   | Some company \<Rightarrow>
                       (let st2 = st1\<lparr>schedules := schedules st1 @
                                    [\<lparr>company_name = company, schedule_time = t\<rparr>]\<rparr>;
                            b2 = put_session session_id st2 b
                        in case schedule_jobs rt now session_id company t (scheduler b2) of
                             Inl e \<Rightarrow> (Inl e, b2)
                           | Inr js \<Rightarrow>
                               (Inr (Scheduled t company),
                                put_session session_id (st2\<lparr>current_task := None\<rparr>)
                                  (b2\<lparr>scheduler := js\<rparr>)))))"

text \<open>
  Lines 116-125 and 139-150 share the choice of an entry: \<open>Inl\<close> is the reply on a
  failed choice, \<open>Inr\<close> the company of the chosen schedule.
\<close>

definition choose_schedule :: "runtime \<Rightarrow> ustring \<Rightarrow> schedule list \<Rightarrow> reply + ustring" where
  "choose_schedule rt user_input scheds =
     (case py_int rt user_input of
        None \<Rightarrow> Inl EnterNumber
      | Some n \<Rightarrow>
          (let choice_idx = n - 1
           in if 0 \<le> choice_idx \<and> choice_idx < int (length scheds)
              then Inr (company_name (scheds ! nat choice_idx))
              else Inl InvalidNumber))"

definition on_cancellation_choice ::
  "runtime \<Rightarrow> ustring \<Rightarrow> ustring \<Rightarrow> session_state \<Rightarrow> task \<Rightarrow> bot \<Rightarrow> (error + reply) \<times> bot" where
  "on_cancellation_choice rt session_id user_input st tk b =
     (case choose_schedule rt user_input (schedules st) of
        Inl r \<Rightarrow> (Inr r, b)
      | Inr company \<Rightarrow>
          (Inr (ConfirmCancellation company),
           put_session session_id
             (st\<lparr>current_task := Some (tk\<lparr>step := AwaitingCancellationConfirmation,
                                          company_to_cancel := Some company\<rparr>)\<rparr>) b))"

definition on_cancellation_confirmation ::
  "runtime \<Rightarrow> ustring \<Rightarrow> ustring \<Rightarrow> session_state \<Rightarrow> task \<Rightarrow> bot \<Rightarrow> (error + reply) \<times> bot" where
  "on_cancellation_confirmation rt session_id user_input st tk b =
     (if lower rt user_input \<in> set affirmatives
      then (Inr (Cancelled (company_to_cancel tk)),
            put_session session_id
              (st\<lparr>schedules := filter (\<lambda>s. Some (company_name s) \<noteq> company_to_cancel tk)
                                 (schedules st),
                  current_task := None\<rparr>)
              (b\<lparr>scheduler := clear (company_to_cancel tk) (scheduler b)\<rparr>))
      else (Inr ScheduleKept, put_session session_id (st\<lparr>current_task := None\<rparr>) b))"

definition on_report_test_choice ::
  "runtime \<Rightarrow> ustring \<Rightarrow> ustring \<Rightarrow> session_state \<Rightarrow> task \<Rightarrow> bot \<Rightarrow> (error + reply) \<times> bot" where
  "on_report_test_choice rt session_id user_input st tk b =
     (case choose_schedule rt user_input (schedules st) of
        Inl r \<Rightarrow> (Inr r, b)
      | Inr company \<Rightarrow>
          (Inr (ReportTriggered company),
           put_session session_id (st\<lparr>current_task := None\<rparr>)
             (send_weekly_report session_id company b)))"

definition handle_message ::
  "collaborators \<Rightarrow> runtime \<Rightarrow> nat \<Rightarrow> ustring \<Rightarrow> ustring \<Rightarrow> bot \<Rightarrow> (error + reply) \<times> bot" where
  "handle_message co rt now session_id user_input b =
     (let (st, b1) = get_session_state session_id b
      in case current_task st of
           None \<Rightarrow> (Inr NoActiveTask, b1)
         | Some tk \<Rightarrow>
             (case step tk of
                AwaitingCompanyName \<Rightarrow> on_company_name co rt now session_id user_input st tk b1
              | AwaitingScheduleTime \<Rightarrow> on_schedule_time rt now session_id user_input st tk b1
              | AwaitingCancellationChoice \<Rightarrow>
                  on_cancellation_choice rt session_id user_input st tk b1
              | AwaitingCancellationConfirmation \<Rightarrow>
                  on_cancellation_confirmation rt session_id user_input st tk b1
              | AwaitingReportTestChoice \<Rightarrow>
                  on_report_test_choice rt session_id user_input st tk b1))"

section \<open>Example values\<close>

text \<open>
  A runtime for ASCII input: no digits or white space beyond ASCII, \<open>lower\<close> on the
  ASCII letters, \<open>Job.at\<close> accepting \<open>HH:MM\<close> with an hour up to 23 and a minute up to
  59, and the clock counting seconds from a midnight.
\<close>

definition hhmm_seconds :: "ustring \<Rightarrow> nat option" where
  "hhmm_seconds t =
     (if length t = 5 \<and> t ! 2 = 58 \<and> list_all (\<lambda>c. 48 \<le> c \<and> c \<le> 57) (take 2 t @ drop 3 t)
      then (let h = (t ! 0 - 48) * 10 + (t ! 1 - 48); m = (t ! 3 - 48) * 10 + (t ! 4 - 48)
            in if h \<le> 23 \<and> m \<le> 59 then Some (h * 3600 + m * 60) else None)
      else None)"

definition example_runtime :: runtime where
  "example_runtime =
     \<lparr>digit_tbl = (\<lambda>c. False), decimal_tbl = (\<lambda>c. None), space_tbl = (\<lambda>c. False),
      lower = map (\<lambda>c. if 65 \<le> c \<and> c \<le> 90 then c + 32 else c),
      max_str_digits = 4300,
      at_valid = (\<lambda>t. hhmm_seconds t \<noteq> None),
      next_at = (\<lambda>now t. case hhmm_seconds t of
                   None \<Rightarrow> now
                 | Some s \<Rightarrow> (let due = now - now mod day + s
                              in if now < due then due else due + day))\<rparr>"

text \<open>
  Three News Stores: one that finds nothing, one that raises on every search, and
  one that finds an article with its text. The Language Model Service answers \<open>ok\<close>.
\<close>

definition empty_store :: collaborators where
  "empty_store =
     \<lparr>search_news = (\<lambda>keywords date limit. Inr []),
      fetch_news_content = (\<lambda>url. Inr []),
      llm_run = (\<lambda>prompt. Inr (U ''ok'')),
      news_summary_prompt = (\<lambda>t c u. t @ c @ u)\<rparr>"

definition failing_store :: collaborators where
  "failing_store = empty_store\<lparr>search_news := (\<lambda>keywords date limit. Inl (CollaboratorError 1))\<rparr>"

definition full_store :: collaborators where
  "full_store =
     empty_store\<lparr>search_news := (\<lambda>keywords date limit.
       Inr [\<lparr>title = Some (U ''T''), link = Some (U ''u''), content = Some (U ''text'')\<rparr>])\<rparr>"

text \<open>
  Two more: an article without text whose fetch raises, and an article with its text
  for a Language Model Service that raises.
\<close>

definition unfetchable_store :: collaborators where
  "unfetchable_store =
     empty_store\<lparr>search_news := (\<lambda>keywords date limit.
         Inr [\<lparr>title = Some (U ''T''), link = Some (U ''u''), content = None\<rparr>]),
       fetch_news_content := (\<lambda>url. Inl (CollaboratorError 2))\<rparr>"

definition mute_store :: collaborators where
  "mute_store = full_store\<lparr>llm_run := (\<lambda>prompt. Inl (CollaboratorError 3))\<rparr>"

definition empty_bot :: bot where
  "empty_bot = \<lparr>conversation_state = Map.empty, scheduler = [], started = []\<rparr>"

text \<open>Session \<open>s1\<close> after \<open>start_conversation\<close>, waiting for the company name.\<close>

definition waiting_bot :: bot where
  "waiting_bot = snd (start_conversation (U ''s1'') empty_bot)"

text \<open>
  Session \<open>s1\<close> further on: after the company name \<open>Acme\<close> (waiting for the time),
  after the time \<open>0900\<close> (one schedule, two jobs), and after a second
  \<open>start_conversation\<close> and \<open>Acme\<close> (waiting for a time again, with the first schedule in
  place).
\<close>

definition timing_bot :: bot where
  "timing_bot =
     snd (handle_message full_store example_runtime 0 (U ''s1'') (U ''Acme'') waiting_bot)"

definition scheduled_bot :: bot where
  "scheduled_bot =
     snd (handle_message full_store example_runtime 0 (U ''s1'') (U ''0900'') timing_bot)"

definition again_bot :: bot where
  "again_bot =
     snd (handle_message full_store example_runtime 100 (U ''s1'') (U ''Acme'')
            (snd (start_conversation (U ''s1'') scheduled_bot)))"

text \<open>The parts of these states, by name.\<close>

definition acme_task :: task where
  "acme_task = \<lparr>step = AwaitingScheduleTime, task_company_name = Some (U ''Acme''),
                 task_schedule_time = None, company_to_cancel = None\<rparr>"

definition timing_state :: session_state where
  "timing_state = \<lparr>schedules = [], current_task = Some acme_task\<rparr>"

definition acme_schedule :: schedule where
  "acme_schedule = \<lparr>company_name = U ''Acme'', schedule_time = U ''09:00''\<rparr>"

definition acme_jobs :: "job list" where
  "acme_jobs = [daily_job example_runtime 0 (U ''s1'') (U ''Acme'') (U ''09:00''),
                weekly_job example_runtime 0 (U ''s1'') (U ''Acme'')]"

definition again_state :: session_state where
  "again_state = \<lparr>schedules = [acme_schedule], current_task = Some acme_task\<rparr>"

text \<open>What a session holds, read as \<open>_get_session_state\<close> reads it.\<close>

definition task_of :: "ustring \<Rightarrow> bot \<Rightarrow> task option" where
  "task_of session_id b = current_task (fst (get_session_state session_id b))"

definition schedules_of :: "ustring \<Rightarrow> bot \<Rightarrow> schedule list" where
  "schedules_of session_id b = schedules (fst (get_session_state session_id b))"





text \<open>
  Two sessions. \<open>register_acme\<close> is the dialogue that schedules Acme at 09:00 for a
  session; \<open>both_bot\<close> has Acme scheduled by \<open>s1\<close> and by \<open>s2\<close>; in
  \<open>confirming_bot\<close> session \<open>s1\<close> has started the cancellation and is asked to
  confirm. In \<open>emptied_bot\<close> it is \<open>s2\<close> that cancelled Acme, and in \<open>stale_bot\<close>
  \<open>s2\<close> has scheduled Acme again and \<open>s1\<close> is asked to confirm its own cancellation.
  \<open>yes\<close> is the first of the affirmative answers.
\<close>

definition yes :: ustring where
  "yes = [45348]"

definition acme_jobs2 :: "job list" where
  "acme_jobs2 = [daily_job example_runtime 0 (U ''s2'') (U ''Acme'') (U ''09:00''),
                 weekly_job example_runtime 0 (U ''s2'') (U ''Acme'')]"

definition register_acme :: "ustring \<Rightarrow> bot \<Rightarrow> bot" where
  "register_acme session_id b =
     snd (handle_message full_store example_runtime 0 session_id (U ''0900'')
       (snd (handle_message full_store example_runtime 0 session_id (U ''Acme'')
         (snd (start_conversation session_id b)))))"

definition both_bot :: bot where
  "both_bot = register_acme (U ''s2'') scheduled_bot"

definition confirming_bot :: bot where
  "confirming_bot = snd (start_cancellation (U ''s1'') both_bot)"

definition emptied_bot :: bot where
  "emptied_bot =
     snd (handle_message full_store example_runtime 0 (U ''s2'') yes
            (snd (start_cancellation (U ''s2'') both_bot)))"

definition stale_bot :: bot where
  "stale_bot = snd (start_cancellation (U ''s1'') (register_acme (U ''s2'') emptied_bot))"

definition acme_done :: session_state where
  "acme_done = \<lparr>schedules = [acme_schedule], current_task = None\<rparr>"

definition confirm_task :: task where
  "confirm_task = \<lparr>step = AwaitingCancellationConfirmation, task_company_name = None,
                    task_schedule_time = None, company_to_cancel = Some (U ''Acme'')\<rparr>"

definition confirm_state :: session_state where
  "confirm_state = \<lparr>schedules = [acme_schedule], current_task = Some confirm_task\<rparr>"

section \<open>The claims\<close>

lemma get_session_state_known:
  "conversation_state b session_id = Some st \<Longrightarrow> get_session_state session_id b = (st, b)"
  by (simp add: get_session_state_def)

lemma get_session_state_new:
  "conversation_state b session_id = None \<Longrightarrow>
   get_session_state session_id b = (new_session, put_session session_id new_session b)"
  by (simp add: get_session_state_def put_session_def)

text \<open>
  C3, as the source has it: a message for a session id that has no entry gets the
  fixed idle reply, and the call stores a fresh entry (no schedules, no task) under
  that id; the entries of all other sessions, the jobs and the thread log stay as
  they were.
\<close>

theorem C3_idle_creates_entry:
  "conversation_state b session_id = None \<Longrightarrow>
   handle_message co rt now session_id user_input b =
     (Inr NoActiveTask,
      b\<lparr>conversation_state := (conversation_state b)(session_id \<mapsto> new_session)\<rparr>)"
  by (simp add: handle_message_def get_session_state_new put_session_def new_session_def)

theorem C3_idle_creates_entry_witness:
  "conversation_state empty_bot (U ''s2'') = None \<and>
   handle_message empty_store example_runtime 0 (U ''s2'') (U ''hello'') empty_bot =
     (Inr NoActiveTask,
      empty_bot\<lparr>conversation_state := (conversation_state empty_bot)(U ''s2'' \<mapsto> new_session)\<rparr>)"
proof -
  have none: "conversation_state empty_bot (U ''s2'') = None"
    by (simp add: empty_bot_def)
  from C3_idle_creates_entry [OF none] show ?thesis
    using none by simp
qed

text \<open>
  C3 as the claim states it fails: after the idle reply the store has an entry for the
  session id that had none.
\<close>

theorem C3_counterexample:
  "conversation_state empty_bot (U ''s2'') = None \<and>
   fst (handle_message empty_store example_runtime 0 (U ''s2'') (U ''hello'') empty_bot)
     = Inr NoActiveTask \<and>
   conversation_state
     (snd (handle_message empty_store example_runtime 0 (U ''s2'') (U ''hello'') empty_bot))
     (U ''s2'') = Some new_session \<and>
   conversation_state
     (snd (handle_message empty_store example_runtime 0 (U ''s2'') (U ''hello'') empty_bot))
     \<noteq> conversation_state empty_bot"
proof -
  have run: "handle_message empty_store example_runtime 0 (U ''s2'') (U ''hello'') empty_bot =
     (Inr NoActiveTask,
      empty_bot\<lparr>conversation_state := (conversation_state empty_bot)(U ''s2'' \<mapsto> new_session)\<rparr>)"
    by (simp add: handle_message_def get_session_state_def empty_bot_def new_session_def)
  have "((conversation_state empty_bot)(U ''s2'' \<mapsto> new_session)) (U ''s2'')
          \<noteq> conversation_state empty_bot (U ''s2'')"
    by (simp add: empty_bot_def)
  then have changed:
    "(conversation_state empty_bot)(U ''s2'' \<mapsto> new_session) \<noteq> conversation_state empty_bot"
    by metis
  have none: "conversation_state empty_bot (U ''s2'') = None"
    by (simp add: empty_bot_def)
  show ?thesis
    unfolding run using changed none by simp
qed

text \<open>
  C1, as the source has it: \<open>_schedule_jobs\<close> appends and never replaces. With two
  times the scheduler accepts, \<open>schedule(s, subj, t1)\<close> and then
  \<open>schedule(s, subj, t2)\<close> leave the earlier jobs in place and add, in this order, a
  Daily job at \<open>t1\<close>, a Weekly job, a Daily job at \<open>t2\<close> and a Weekly job: two more
  jobs for the daily handler of \<open>(s, subj)\<close> and two more for the weekly one, the last
  Daily job being the one at \<open>t2\<close>.
\<close>

theorem C1_schedule_appends:
  "at_valid rt t1 \<Longrightarrow> at_valid rt t2 \<Longrightarrow>
   and_then (schedule_jobs rt now1 s subj t1 js) (schedule_jobs rt now2 s subj t2) =
     Inr (js @ [daily_job rt now1 s subj t1, weekly_job rt now1 s subj,
                daily_job rt now2 s subj t2, weekly_job rt now2 s subj]) \<and>
   length (jobs_calling (SendDailySummary s subj)
     (js @ [daily_job rt now1 s subj t1, weekly_job rt now1 s subj,
            daily_job rt now2 s subj t2, weekly_job rt now2 s subj])) =
     length (jobs_calling (SendDailySummary s subj) js) + 2 \<and>
   length (jobs_calling (SendWeeklyReport s subj)
     (js @ [daily_job rt now1 s subj t1, weekly_job rt now1 s subj,
            daily_job rt now2 s subj t2, weekly_job rt now2 s subj])) =
     length (jobs_calling (SendWeeklyReport s subj) js) + 2 \<and>
   at_time (last (jobs_calling (SendDailySummary s subj)
     (js @ [daily_job rt now1 s subj t1, weekly_job rt now1 s subj,
            daily_job rt now2 s subj t2, weekly_job rt now2 s subj]))) = Some t2"
  by (simp add: and_then_def schedule_jobs_def jobs_calling_def daily_job_def weekly_job_def)

lemma at_valid_0900: "at_valid example_runtime (U ''09:00'')"
  by (simp add: example_runtime_def hhmm_seconds_def U_def)

lemma at_valid_1030: "at_valid example_runtime (U ''10:30'')"
  by (simp add: example_runtime_def hhmm_seconds_def U_def)

theorem C1_schedule_appends_witness:
  "at_valid example_runtime (U ''09:00'') \<and> at_valid example_runtime (U ''10:30'') \<and>
   and_then (schedule_jobs example_runtime 0 (U ''s1'') (U ''Acme'') (U ''09:00'') [])
            (schedule_jobs example_runtime 60 (U ''s1'') (U ''Acme'') (U ''10:30'')) =
     Inr [daily_job example_runtime 0 (U ''s1'') (U ''Acme'') (U ''09:00''),
          weekly_job example_runtime 0 (U ''s1'') (U ''Acme''),
          daily_job example_runtime 60 (U ''s1'') (U ''Acme'') (U ''10:30''),
          weekly_job example_runtime 60 (U ''s1'') (U ''Acme'')]"
  using C1_schedule_appends [OF at_valid_0900 at_valid_1030, of 0 "U ''s1''" "U ''Acme''" "[]" 60]
        at_valid_0900 at_valid_1030
  by simp

text \<open>
  C1 as the claim states it fails: after the two calls on an empty registry there are
  two Daily jobs for \<open>(s1, Acme)\<close>, at 09:00 and at 10:30, and two Weekly jobs.
\<close>

theorem C1_counterexample:
  "\<not> isl (and_then (schedule_jobs example_runtime 0 (U ''s1'') (U ''Acme'') (U ''09:00'') [])
                    (schedule_jobs example_runtime 0 (U ''s1'') (U ''Acme'') (U ''10:30''))) \<and>
   map at_time (jobs_calling (SendDailySummary (U ''s1'') (U ''Acme''))
     (projr (and_then (schedule_jobs example_runtime 0 (U ''s1'') (U ''Acme'') (U ''09:00'') [])
                      (schedule_jobs example_runtime 0 (U ''s1'') (U ''Acme'') (U ''10:30'')))))
     = [Some (U ''09:00''), Some (U ''10:30'')] \<and>
   length (jobs_calling (SendWeeklyReport (U ''s1'') (U ''Acme''))
     (projr (and_then (schedule_jobs example_runtime 0 (U ''s1'') (U ''Acme'') (U ''09:00'') [])
                      (schedule_jobs example_runtime 0 (U ''s1'') (U ''Acme'') (U ''10:30''))))) = 2"
  using at_valid_0900 at_valid_1030
  by (simp add: and_then_def schedule_jobs_def jobs_calling_def daily_job_def weekly_job_def)

text \<open>
  C2, as the source has it: the summarizer catches nothing. An error raised by the
  search, by the content fetch or by the Language Model Service is raised by
  \<open>fetchLatestSummary\<close> itself, and \<open>handleMessage\<close> in the step \<open>AwaitingCompanyName\<close>
  raises it in turn. Where no call raises, an empty search result gives the
  not-found text and an empty article text the content-unavailable text, both with
  \<open>found = false\<close>.
\<close>

theorem C2_errors_propagate:
  "(search_news co [subj] now 1 = Inl e \<longrightarrow>
      fetch_and_summarize_latest_news co now subj = Inl e) \<and>
   (search_news co [subj] now 1 = Inr (a # rest) \<and> get_content a = [] \<and>
    fetch_news_content co (get_link a) = Inl e \<longrightarrow>
      fetch_and_summarize_latest_news co now subj = Inl e) \<and>
   (search_news co [subj] now 1 = Inr (a # rest) \<and> get_content a \<noteq> [] \<and>
    llm_run co (news_summary_prompt co (get_title a) (get_content a) (get_link a)) = Inl e \<longrightarrow>
      fetch_and_summarize_latest_news co now subj = Inl e) \<and>
   (search_news co [subj] now 1 = Inr (a # rest) \<and> get_content a = [] \<and>
    fetch_news_content co (get_link a) = Inr body \<and> body \<noteq> [] \<and>
    llm_run co (news_summary_prompt co (get_title a) body (get_link a)) = Inl e \<longrightarrow>
      fetch_and_summarize_latest_news co now subj = Inl e) \<and>
   (search_news co [subj] now 1 = Inr [] \<longrightarrow>
      fetch_and_summarize_latest_news co now subj = Inr (NotFoundText, False)) \<and>
   (search_news co [subj] now 1 = Inr (a # rest) \<and> get_content a = [] \<and>
    fetch_news_content co (get_link a) = Inr [] \<longrightarrow>
      fetch_and_summarize_latest_news co now subj =
        Inr (ContentUnavailable (get_title a), False)) \<and>
   (conversation_state b session_id = Some st \<and> current_task st = Some tk \<and>
    step tk = AwaitingCompanyName \<and>
    fetch_and_summarize_latest_news co now (strip rt user_input) = Inl e \<longrightarrow>
      fst (handle_message co rt now session_id user_input b) = Inl e)"
  by (simp add: fetch_and_summarize_latest_news_def handle_message_def get_session_state_def
      on_company_name_def)

lemma waiting_bot_eq:
  "waiting_bot =
     \<lparr>conversation_state =
        [U ''s1'' \<mapsto> \<lparr>schedules = [], current_task = Some (new_task AwaitingCompanyName)\<rparr>],
      scheduler = [], started = []\<rparr>"
  by (simp add: waiting_bot_def start_conversation_def get_session_state_def empty_bot_def
      put_session_def new_session_def)

lemma strip_Acme: "strip rt (U ''Acme'') = U ''Acme''"
  by (simp add: strip_def isspace_def U_def)

lemma summarize_failing_store:
  "fetch_and_summarize_latest_news failing_store 0 (U ''Acme'') = Inl (CollaboratorError 1)"
  by (simp add: fetch_and_summarize_latest_news_def failing_store_def empty_store_def)

theorem C2_errors_propagate_witness:
  "search_news failing_store [U ''Acme''] 0 1 = Inl (CollaboratorError 1) \<and>
   fetch_and_summarize_latest_news failing_store 0 (U ''Acme'') = Inl (CollaboratorError 1) \<and>
   fetch_and_summarize_latest_news unfetchable_store 0 (U ''Acme'') = Inl (CollaboratorError 2) \<and>
   fetch_and_summarize_latest_news mute_store 0 (U ''Acme'') = Inl (CollaboratorError 3) \<and>
   search_news empty_store [U ''Acme''] 0 1 = Inr [] \<and>
   fetch_and_summarize_latest_news empty_store 0 (U ''Acme'') = Inr (NotFoundText, False) \<and>
   fst (handle_message failing_store example_runtime 0 (U ''s1'') (U ''Acme'') waiting_bot)
     = Inl (CollaboratorError 1)"
proof -
  have raises: "search_news failing_store [U ''Acme''] 0 1 = Inl (CollaboratorError 1)"
    by (simp add: failing_store_def empty_store_def)
  have finds_none: "search_news empty_store [U ''Acme''] 0 1 = Inr []"
    by (simp add: empty_store_def)
  have no_text:
    "search_news unfetchable_store [U ''Acme''] 0 1 =
       Inr (\<lparr>title = Some (U ''T''), link = Some (U ''u''), content = None\<rparr> # []) \<and>
     get_content \<lparr>title = Some (U ''T''), link = Some (U ''u''), content = None\<rparr> = [] \<and>
     fetch_news_content unfetchable_store
       (get_link \<lparr>title = Some (U ''T''), link = Some (U ''u''), content = None\<rparr>)
       = Inl (CollaboratorError 2)"
    by (simp add: unfetchable_store_def empty_store_def get_content_def)
  have no_answer:
    "search_news mute_store [U ''Acme''] 0 1 =
       Inr (\<lparr>title = Some (U ''T''), link = Some (U ''u''), content = Some (U ''text'')\<rparr> # []) \<and>
     get_content \<lparr>title = Some (U ''T''), link = Some (U ''u''), content = Some (U ''text'')\<rparr>
       \<noteq> [] \<and>
     llm_run mute_store
       (news_summary_prompt mute_store
          (get_title \<lparr>title = Some (U ''T''), link = Some (U ''u''), content = Some (U ''text'')\<rparr>)
          (get_content \<lparr>title = Some (U ''T''), link = Some (U ''u''), content = Some (U ''text'')\<rparr>)
          (get_link \<lparr>title = Some (U ''T''), link = Some (U ''u''), content = Some (U ''text'')\<rparr>))
       = Inl (CollaboratorError 3)"
    by (simp add: mute_store_def full_store_def empty_store_def get_content_def U_def)
  have in_step:
    "conversation_state waiting_bot (U ''s1'') =
       Some \<lparr>schedules = [], current_task = Some (new_task AwaitingCompanyName)\<rparr> \<and>
     current_task \<lparr>schedules = [], current_task = Some (new_task AwaitingCompanyName)\<rparr>
       = Some (new_task AwaitingCompanyName) \<and>
     step (new_task AwaitingCompanyName) = AwaitingCompanyName \<and>
     fetch_and_summarize_latest_news failing_store 0 (strip example_runtime (U ''Acme''))
       = Inl (CollaboratorError 1)"
    by (simp add: waiting_bot_eq new_task_def strip_Acme summarize_failing_store)
  note search_raises = C2_errors_propagate [THEN conjunct1, THEN mp]
  note fetch_raises = C2_errors_propagate [THEN conjunct2, THEN conjunct1, THEN mp]
  note llm_raises = C2_errors_propagate [THEN conjunct2, THEN conjunct2, THEN conjunct1, THEN mp]
  note search_empty = C2_errors_propagate
    [THEN conjunct2, THEN conjunct2, THEN conjunct2, THEN conjunct2, THEN conjunct1, THEN mp]
  note to_conversation = C2_errors_propagate
    [THEN conjunct2, THEN conjunct2, THEN conjunct2, THEN conjunct2, THEN conjunct2,
     THEN conjunct2, THEN mp]
  show ?thesis
    by (intro conjI raises finds_none search_raises [OF raises] fetch_raises [OF no_text]
        llm_raises [OF no_answer] search_empty [OF finds_none] to_conversation [OF in_step])
qed

text \<open>
  C2 as the claim states it fails: with a News Store whose search raises, the
  summarizer raises the same error instead of returning a text with \<open>found = false\<close>,
  and so does \<open>handleMessage\<close> for a session that waits for the company name.
\<close>

theorem C2_counterexample:
  "fetch_and_summarize_latest_news failing_store 0 (U ''Acme'') = Inl (CollaboratorError 1) \<and>
   fst (handle_message failing_store example_runtime 0 (U ''s1'') (U ''Acme'') waiting_bot)
     = Inl (CollaboratorError 1)"
  by (simp add: waiting_bot_eq summarize_failing_store handle_message_def get_session_state_def
      on_company_name_def new_task_def strip_Acme)

subsection \<open>The example states\<close>

lemma summarize_full_store:
  "fetch_and_summarize_latest_news full_store now subj = Inr (SummaryWithSource (U ''ok'') (U ''u''), True)"
  by (simp add: fetch_and_summarize_latest_news_def full_store_def empty_store_def get_content_def get_link_def U_def)

lemma timing_bot_eq:
  "timing_bot =
     \<lparr>conversation_state = [U ''s1'' \<mapsto> \<lparr>schedules = [], current_task = Some acme_task\<rparr>],
      scheduler = [], started = []\<rparr>"
  by (simp add: timing_bot_def waiting_bot_eq handle_message_def get_session_state_def
      on_company_name_def new_task_def strip_Acme summarize_full_store put_session_def acme_task_def Let_def)

lemma timing_bot_state: "conversation_state timing_bot (U ''s1'') = Some timing_state"
  by (simp add: timing_bot_eq timing_state_def)

lemma timing_state_task: "current_task timing_state = Some acme_task"
  by (simp add: timing_state_def)

lemma acme_task_step: "step acme_task = AwaitingScheduleTime"
  by (simp add: acme_task_def)

lemma acme_task_company: "task_company_name acme_task = Some (U ''Acme'')"
  by (simp add: acme_task_def)

lemma no_keyword_ascii:
  "list_all (\<lambda>c. c < 128) user_input \<Longrightarrow>
   \<not> list_ex (\<lambda>keyword. sublist keyword user_input) cancel_keywords"
proof -
  assume ascii: "list_all (\<lambda>c. c < 128) user_input"
  have "\<not> sublist keyword user_input" if "keyword \<in> set cancel_keywords" for keyword
  proof
    assume "sublist keyword user_input"
    then have "set keyword \<subseteq> set user_input"
      by (rule set_mono_sublist)
    moreover have "\<exists>c \<in> set keyword. \<not> c < 128"
      using that by (auto simp add: cancel_keywords_def)
    ultimately show False
      using ascii by (auto simp add: list_all_iff)
  qed
  then show ?thesis
    by (auto simp add: list_ex_iff)
qed

lemma no_keyword_0900:
  "\<not> list_ex (\<lambda>keyword. sublist keyword (U ''0900'')) cancel_keywords"
  by (rule no_keyword_ascii) (simp add: U_def)

lemma parse_0900: "parse_schedule_time rt (U ''0900'') = Some (U ''09:00'')"
  by (simp add: parse_schedule_time_def isdigit_def U_def)

lemma scheduled_bot_eq:
  "scheduled_bot =
     \<lparr>conversation_state = [U ''s1'' \<mapsto> \<lparr>schedules = [acme_schedule], current_task = None\<rparr>],
      scheduler = acme_jobs, started = []\<rparr>"
  using no_keyword_0900 at_valid_0900
  by (simp add: scheduled_bot_def timing_bot_eq handle_message_def get_session_state_def
      on_schedule_time_def parse_0900 acme_task_def schedule_jobs_def put_session_def
      acme_schedule_def acme_jobs_def Let_def)

lemma again_bot_eq:
  "again_bot =
     \<lparr>conversation_state = [U ''s1'' \<mapsto> again_state], scheduler = acme_jobs, started = []\<rparr>"
  by (simp add: again_bot_def scheduled_bot_eq start_conversation_def handle_message_def
      get_session_state_def on_company_name_def new_task_def strip_Acme summarize_full_store
      put_session_def acme_task_def again_state_def Let_def)

lemma no_keyword_1030:
  "\<not> list_ex (\<lambda>keyword. sublist keyword (U ''1030'')) cancel_keywords"
  by (rule no_keyword_ascii) (simp add: U_def)

lemma parse_1030: "parse_schedule_time rt (U ''1030'') = Some (U ''10:30'')"
  by (simp add: parse_schedule_time_def isdigit_def U_def)

subsection \<open>The step that waits for the time\<close>

text \<open>
  C8: in the step \<open>AwaitingScheduleTime\<close> an input that contains a cancel keyword gets
  the setup-cancelled reply and clears the PendingTask: the session's task reads as
  absent afterwards, whatever else the input holds. The digits are not looked at;
  the session's schedules, the other sessions and the jobs stay as they were.
\<close>

theorem C8_cancel_keyword_first:
  "conversation_state b session_id = Some st \<Longrightarrow> current_task st = Some tk \<Longrightarrow>
   step tk = AwaitingScheduleTime \<Longrightarrow>
   keyword \<in> set cancel_keywords \<Longrightarrow> sublist keyword user_input \<Longrightarrow>
   handle_message co rt now session_id user_input b =
     (Inr SchedulingCancelled,
      b\<lparr>conversation_state := (conversation_state b)(session_id \<mapsto> st\<lparr>current_task := None\<rparr>)\<rparr>) \<and>
   task_of session_id (snd (handle_message co rt now session_id user_input b)) = None \<and>
   schedules_of session_id (snd (handle_message co rt now session_id user_input b))
     = schedules st \<and>
   scheduler (snd (handle_message co rt now session_id user_input b)) = scheduler b"
  by (auto simp add: handle_message_def get_session_state_def on_schedule_time_def list_ex_iff
      put_session_def task_of_def schedules_of_def)

theorem C8_cancel_keyword_first_witness:
  "conversation_state timing_bot (U ''s1'') = Some timing_state \<and>
   current_task timing_state = Some acme_task \<and> step acme_task = AwaitingScheduleTime \<and>
   [52712, 49548] \<in> set cancel_keywords \<and>
   sublist [52712, 49548] ([52712, 49548] @ U '' 0900'') \<and>
   filter (isdigit example_runtime) ([52712, 49548] @ U '' 0900'') = U ''0900'' \<and>
   task_of (U ''s1'') timing_bot = Some acme_task \<and>
   fst (handle_message full_store example_runtime 0 (U ''s1'') ([52712, 49548] @ U '' 0900'')
          timing_bot) = Inr SchedulingCancelled \<and>
   task_of (U ''s1'')
     (snd (handle_message full_store example_runtime 0 (U ''s1'') ([52712, 49548] @ U '' 0900'')
             timing_bot)) = None \<and>
   schedules_of (U ''s1'')
     (snd (handle_message full_store example_runtime 0 (U ''s1'') ([52712, 49548] @ U '' 0900'')
             timing_bot)) = []"
proof -
  have kw: "[52712, 49548] \<in> set cancel_keywords"
    by (simp add: cancel_keywords_def)
  have inside: "sublist [52712, 49548] ([52712, 49548] @ U '' 0900'')"
    by (rule sublist_append_rightI)
  have digits: "filter (isdigit example_runtime) ([52712, 49548] @ U '' 0900'') = U ''0900''"
    by (simp add: isdigit_def example_runtime_def U_def)
  have before: "task_of (U ''s1'') timing_bot = Some acme_task"
    by (simp add: task_of_def get_session_state_def timing_bot_state timing_state_task)
  note run = C8_cancel_keyword_first [OF timing_bot_state timing_state_task acme_task_step kw inside,
      where co = full_store and rt = example_runtime and now = 0]
  have reply: "fst (handle_message full_store example_runtime 0 (U ''s1'')
      ([52712, 49548] @ U '' 0900'') timing_bot) = Inr SchedulingCancelled"
    using run [THEN conjunct1] by simp
  have kept: "schedules_of (U ''s1'')
     (snd (handle_message full_store example_runtime 0 (U ''s1'') ([52712, 49548] @ U '' 0900'')
             timing_bot)) = []"
    using run [THEN conjunct2, THEN conjunct2, THEN conjunct1] by (simp add: timing_state_def)
  show ?thesis
    by (intro conjI timing_bot_state timing_state_task acme_task_step kw inside digits before
        reply run [THEN conjunct2, THEN conjunct1] kept)
qed

text \<open>
  C6, as the source has it: in the step \<open>AwaitingScheduleTime\<close>, for an input that
  contains no cancel keyword, the digits of the input in their order decide. Two
  digits give the time "digits:00", four digits the first two, a colon and the last
  two; this time is what the new schedule holds and what the reply names (or, where
  the scheduler refuses the time, the call raises after the schedule was stored). Any
  other number of digits gets the format-error reply and changes nothing.
\<close>

theorem C6_time_parsing:
  "conversation_state b session_id = Some st \<Longrightarrow> current_task st = Some tk \<Longrightarrow>
   step tk = AwaitingScheduleTime \<Longrightarrow> task_company_name tk = Some company \<Longrightarrow>
   \<not> list_ex (\<lambda>keyword. sublist keyword user_input) cancel_keywords \<Longrightarrow>
   digits = filter (isdigit rt) user_input \<Longrightarrow>
   (length digits = 2 \<longrightarrow>
      parse_schedule_time rt user_input = Some (digits @ U '':00'') \<and>
      map_option schedules
        (conversation_state (snd (handle_message co rt now session_id user_input b)) session_id)
        = Some (schedules st @ [\<lparr>company_name = company, schedule_time = digits @ U '':00''\<rparr>]) \<and>
      fst (handle_message co rt now session_id user_input b) =
        (if at_valid rt (digits @ U '':00'') then Inr (Scheduled (digits @ U '':00'') company)
         else Inl ScheduleValueError)) \<and>
   (length digits = 4 \<longrightarrow>
      parse_schedule_time rt user_input = Some (take 2 digits @ U '':'' @ drop 2 digits) \<and>
      map_option schedules
        (conversation_state (snd (handle_message co rt now session_id user_input b)) session_id)
        = Some (schedules st @
                [\<lparr>company_name = company, schedule_time = take 2 digits @ U '':'' @ drop 2 digits\<rparr>]) \<and>
      fst (handle_message co rt now session_id user_input b) =
        (if at_valid rt (take 2 digits @ U '':'' @ drop 2 digits)
         then Inr (Scheduled (take 2 digits @ U '':'' @ drop 2 digits) company)
         else Inl ScheduleValueError)) \<and>
   (length digits \<noteq> 2 \<and> length digits \<noteq> 4 \<longrightarrow>
      parse_schedule_time rt user_input = None \<and>
      handle_message co rt now session_id user_input b = (Inr TimeFormatError, b))"
  by (simp add: handle_message_def get_session_state_def on_schedule_time_def parse_schedule_time_def
      schedule_jobs_def put_session_def Let_def)

theorem C6_time_parsing_witness:
  "parse_schedule_time example_runtime (U ''14'') = Some (U ''14:00'') \<and>
   parse_schedule_time example_runtime (U ''0900'') = Some (U ''09:00'') \<and>
   parse_schedule_time example_runtime (U ''1430'') = Some (U ''14:30'') \<and>
   fst (handle_message full_store example_runtime 0 (U ''s1'') (U ''14:30'') timing_bot)
     = Inr (Scheduled (U ''14:30'') (U ''Acme'')) \<and>
   handle_message full_store example_runtime 0 (U ''s1'') (U ''abcdefg'') timing_bot
     = (Inr TimeFormatError, timing_bot)"
proof -
  note in_step = timing_bot_state timing_state_task acme_task_step acme_task_company
  have d14: "U ''14'' = filter (isdigit example_runtime) (U ''14'')"
    and d0900: "U ''0900'' = filter (isdigit example_runtime) (U ''0900'')"
    and d1430: "U ''1430'' = filter (isdigit example_runtime) (U ''1430'')"
    and dcolon: "U ''1430'' = filter (isdigit example_runtime) (U ''14:30'')"
    and dnone: "[] = filter (isdigit example_runtime) (U ''abcdefg'')"
    by (simp_all add: isdigit_def U_def)
  have k14: "\<not> list_ex (\<lambda>keyword. sublist keyword (U ''14'')) cancel_keywords"
    and k0900: "\<not> list_ex (\<lambda>keyword. sublist keyword (U ''0900'')) cancel_keywords"
    and k1430: "\<not> list_ex (\<lambda>keyword. sublist keyword (U ''1430'')) cancel_keywords"
    and kcolon: "\<not> list_ex (\<lambda>keyword. sublist keyword (U ''14:30'')) cancel_keywords"
    and knone: "\<not> list_ex (\<lambda>keyword. sublist keyword (U ''abcdefg'')) cancel_keywords"
    by (rule no_keyword_ascii, simp add: U_def)+
  have valid: "at_valid example_runtime (U ''14:30'')"
    by (simp add: example_runtime_def hhmm_seconds_def U_def)
  have two: "length (U ''14'') = 2" and four: "length (U ''0900'') = 4" "length (U ''1430'') = 4"
    and zero: "length ([] :: ustring) \<noteq> 2 \<and> length ([] :: ustring) \<noteq> 4"
    by (simp_all add: U_def)
  note r14 = C6_time_parsing [OF in_step k14 d14, THEN conjunct1, THEN mp, OF two, THEN conjunct1]
  note r0900 = C6_time_parsing [OF in_step k0900 d0900, THEN conjunct2, THEN conjunct1, THEN mp,
      OF four(1), THEN conjunct1]
  note r1430 = C6_time_parsing [OF in_step k1430 d1430, THEN conjunct2, THEN conjunct1, THEN mp,
      OF four(2), THEN conjunct1]
  note rcolon = C6_time_parsing [where co = full_store and now = 0, OF in_step kcolon dcolon,
      THEN conjunct2, THEN conjunct1, THEN mp, OF four(2), THEN conjunct2, THEN conjunct2]
  note rnone = C6_time_parsing [where co = full_store and now = 0, OF in_step knone dnone,
      THEN conjunct2, THEN conjunct2, THEN mp, OF zero, THEN conjunct2]
  have join: "U ''14'' @ U '':00'' = U ''14:00''"
    "take 2 (U ''0900'') @ U '':'' @ drop 2 (U ''0900'') = U ''09:00''"
    "take 2 (U ''1430'') @ U '':'' @ drop 2 (U ''1430'') = U ''14:30''"
    by (simp_all add: U_def)
  show ?thesis
    using r14 r0900 r1430 rcolon rnone valid unfolding join by simp
qed

lemma keyword_cancels_setup:
  "conversation_state b session_id = Some st \<Longrightarrow> current_task st = Some tk \<Longrightarrow>
   step tk = AwaitingScheduleTime \<Longrightarrow>
   list_ex (\<lambda>keyword. sublist keyword user_input) cancel_keywords \<Longrightarrow>
   handle_message co rt now session_id user_input b =
     (Inr SchedulingCancelled, put_session session_id (st\<lparr>current_task := None\<rparr>) b)"
  by (simp add: handle_message_def get_session_state_def on_schedule_time_def)

text \<open>
  C6 as the claim states it fails for an input with a cancel keyword: a keyword with the
  two digits 14 gets the setup-cancelled reply and no schedule, and the keyword
  alone (no digit) gets the same reply, not the format error, and the task is
  cleared.
\<close>

theorem C6_counterexample:
  "filter (isdigit example_runtime) ([52712, 49548] @ U ''14'') = U ''14'' \<and>
   fst (handle_message full_store example_runtime 0 (U ''s1'') ([52712, 49548] @ U ''14'')
          timing_bot) = Inr SchedulingCancelled \<and>
   schedules_of (U ''s1'')
     (snd (handle_message full_store example_runtime 0 (U ''s1'') ([52712, 49548] @ U ''14'')
             timing_bot)) = [] \<and>
   filter (isdigit example_runtime) [52712, 49548] = [] \<and>
   fst (handle_message full_store example_runtime 0 (U ''s1'') [52712, 49548] timing_bot)
     = Inr SchedulingCancelled \<and>
   task_of (U ''s1'') timing_bot = Some acme_task \<and>
   task_of (U ''s1'')
     (snd (handle_message full_store example_runtime 0 (U ''s1'') [52712, 49548] timing_bot))
     = None"
proof -
  have hit: "list_ex (\<lambda>keyword. sublist keyword ([52712, 49548] @ U ''14'')) cancel_keywords"
    "list_ex (\<lambda>keyword. sublist keyword [52712, 49548]) cancel_keywords"
    by (simp_all add: cancel_keywords_def U_def sublist_Cons_right)
  have digits: "filter (isdigit example_runtime) ([52712, 49548] @ U ''14'') = U ''14''"
    "filter (isdigit example_runtime) [52712, 49548] = []"
    by (simp_all add: isdigit_def example_runtime_def U_def)
  have cancelled:
    "handle_message full_store example_runtime 0 (U ''s1'') ([52712, 49548] @ U ''14'') timing_bot
       = (Inr SchedulingCancelled,
          put_session (U ''s1'') (timing_state\<lparr>current_task := None\<rparr>) timing_bot)"
    "handle_message full_store example_runtime 0 (U ''s1'') [52712, 49548] timing_bot
       = (Inr SchedulingCancelled,
          put_session (U ''s1'') (timing_state\<lparr>current_task := None\<rparr>) timing_bot)"
    by (rule keyword_cancels_setup [OF timing_bot_state timing_state_task acme_task_step hit(1)])
      (rule keyword_cancels_setup [OF timing_bot_state timing_state_task acme_task_step hit(2)])
  have before: "task_of (U ''s1'') timing_bot = Some acme_task"
    by (simp add: task_of_def get_session_state_def timing_bot_state timing_state_task)
  have after:
    "task_of (U ''s1'') (put_session (U ''s1'') (timing_state\<lparr>current_task := None\<rparr>) timing_bot)
       = None"
    "schedules_of (U ''s1'')
       (put_session (U ''s1'') (timing_state\<lparr>current_task := None\<rparr>) timing_bot) = []"
    by (simp_all add: task_of_def schedules_of_def get_session_state_def put_session_def
        timing_state_def)
  show ?thesis
    unfolding cancelled by (simp only: fst_conv snd_conv digits before after simp_thms)
qed

text \<open>
  C4, as the source has it: completing the step \<open>AwaitingScheduleTime\<close> appends the new
  schedule at the end of the session's list and removes nothing, so a subject that
  has a schedule already gets a second record with the same name.
\<close>

theorem C4_schedule_appended:
  "conversation_state b session_id = Some st \<Longrightarrow> current_task st = Some tk \<Longrightarrow>
   step tk = AwaitingScheduleTime \<Longrightarrow> task_company_name tk = Some company \<Longrightarrow>
   \<not> list_ex (\<lambda>keyword. sublist keyword user_input) cancel_keywords \<Longrightarrow>
   parse_schedule_time rt user_input = Some t \<Longrightarrow>
   map_option schedules
     (conversation_state (snd (handle_message co rt now session_id user_input b)) session_id)
     = Some (schedules st @ [\<lparr>company_name = company, schedule_time = t\<rparr>])"
  by (simp add: handle_message_def get_session_state_def on_schedule_time_def
      schedule_jobs_def put_session_def Let_def)

theorem C4_schedule_appended_witness:
  "conversation_state again_bot (U ''s1'') = Some again_state \<and>
   current_task again_state = Some acme_task \<and> step acme_task = AwaitingScheduleTime \<and>
   task_company_name acme_task = Some (U ''Acme'') \<and>
   \<not> list_ex (\<lambda>keyword. sublist keyword (U ''1030'')) cancel_keywords \<and>
   parse_schedule_time example_runtime (U ''1030'') = Some (U ''10:30'') \<and>
   map_option schedules
     (conversation_state
        (snd (handle_message full_store example_runtime 200 (U ''s1'') (U ''1030'') again_bot))
        (U ''s1''))
     = Some (schedules again_state @ [\<lparr>company_name = U ''Acme'', schedule_time = U ''10:30''\<rparr>])"
proof -
  have st: "conversation_state again_bot (U ''s1'') = Some again_state"
    by (simp add: again_bot_eq)
  have tk: "current_task again_state = Some acme_task"
    by (simp add: again_state_def)
  show ?thesis
    by (intro conjI st tk acme_task_step acme_task_company no_keyword_1030 parse_1030
        C4_schedule_appended [OF st tk acme_task_step acme_task_company no_keyword_1030 parse_1030])
qed

text \<open>
  C4 as the claim states it fails: session \<open>s1\<close> has a schedule for Acme at 09:00 and
  completes the step for Acme with 10:30; its list then has two records named Acme.
\<close>

theorem C4_counterexample:
  "map_option (map company_name \<circ> schedules)
     (conversation_state
        (snd (handle_message full_store example_runtime 200 (U ''s1'') (U ''1030'') again_bot))
        (U ''s1''))
     = Some [U ''Acme'', U ''Acme''] \<and>
   map_option (map schedule_time \<circ> schedules)
     (conversation_state
        (snd (handle_message full_store example_runtime 200 (U ''s1'') (U ''1030'') again_bot))
        (U ''s1''))
     = Some [U ''09:00'', U ''10:30'']"
  using no_keyword_1030 at_valid_1030
  by (simp add: again_bot_eq again_state_def handle_message_def get_session_state_def
      on_schedule_time_def parse_1030 acme_task_def schedule_jobs_def put_session_def
      acme_schedule_def Let_def)

subsection \<open>Choosing a schedule by its number\<close>






subsection \<open>The entry points\<close>

text \<open>
  C10, as the source has it: a session has one slot for its task (at most one
  PendingTask). \<open>startConversation\<close> and \<open>startCancellation\<close> write that slot whatever
  it held; \<open>triggerReportTest\<close> writes it only for a session with two or more
  schedules and leaves it as it was for a session with none or one.
\<close>

theorem C10_entry_points:
  "task_of session_id (snd (start_conversation session_id b))
     = Some (new_task AwaitingCompanyName) \<and>
   task_of session_id (snd (start_cancellation session_id b)) =
     (case schedules_of session_id b of
        [] \<Rightarrow> None
      | [s] \<Rightarrow> Some ((new_task AwaitingCancellationConfirmation)
                       \<lparr>company_to_cancel := Some (company_name s)\<rparr>)
      | _ \<Rightarrow> Some (new_task AwaitingCancellationChoice)) \<and>
   task_of session_id (snd (trigger_weekly_report session_id b)) =
     (if 2 \<le> length (schedules_of session_id b) then Some (new_task AwaitingReportTestChoice)
      else task_of session_id b)"
  by (auto simp add: task_of_def schedules_of_def start_conversation_def start_cancellation_def
      trigger_weekly_report_def get_session_state_def put_session_def send_weekly_report_def
      new_session_def split: option.splits list.splits)

text \<open>
  C10 as the claim states it fails: \<open>triggerReportTest\<close> for a session with one schedule
  that waits for a time, and for a session with no schedule that waits for a company
  name, leaves the dialogue in progress.
\<close>

theorem C10_counterexample:
  "task_of (U ''s1'') again_bot = Some acme_task \<and>
   fst (trigger_weekly_report (U ''s1'') again_bot) = ReportTriggered (U ''Acme'') \<and>
   task_of (U ''s1'') (snd (trigger_weekly_report (U ''s1'') again_bot)) = Some acme_task \<and>
   task_of (U ''s1'') waiting_bot = Some (new_task AwaitingCompanyName) \<and>
   fst (trigger_weekly_report (U ''s1'') waiting_bot) = RegisterFirst \<and>
   task_of (U ''s1'') (snd (trigger_weekly_report (U ''s1'') waiting_bot))
     = Some (new_task AwaitingCompanyName)"
  by (simp add: task_of_def trigger_weekly_report_def get_session_state_def again_bot_eq
      again_state_def waiting_bot_eq send_weekly_report_def acme_schedule_def)

subsection \<open>Cancellation and the scheduler\<close>

lemma s1_s2 [simp]: "U ''s1'' \<noteq> U ''s2''" "U ''s2'' \<noteq> U ''s1''"
  by (simp_all add: U_def)

lemma s1_first: "(m(U ''s2'' := y))(U ''s1'' := x) = (m(U ''s1'' := x))(U ''s2'' := y)"
  by (rule fun_upd_twist) simp

lemma register_acme_s2:
  "conversation_state b (U ''s2'') = None \<or> conversation_state b (U ''s2'') = Some new_session \<Longrightarrow>
   register_acme (U ''s2'') b =
     b\<lparr>conversation_state := (conversation_state b)(U ''s2'' \<mapsto> acme_done),
       scheduler := scheduler b @ acme_jobs2\<rparr>"
  using no_keyword_0900 at_valid_0900
  by (auto simp add: register_acme_def start_conversation_def handle_message_def
      get_session_state_def on_company_name_def on_schedule_time_def new_task_def strip_Acme
      summarize_full_store parse_0900 schedule_jobs_def put_session_def new_session_def
      acme_done_def acme_schedule_def acme_jobs2_def Let_def)

lemma both_bot_eq:
  "both_bot =
     \<lparr>conversation_state = [U ''s1'' \<mapsto> acme_done, U ''s2'' \<mapsto> acme_done],
      scheduler = acme_jobs @ acme_jobs2, started = []\<rparr>"
  by (simp add: both_bot_def register_acme_s2 scheduled_bot_eq acme_done_def)

lemma confirming_bot_eq:
  "confirming_bot =
     \<lparr>conversation_state = [U ''s1'' \<mapsto> confirm_state, U ''s2'' \<mapsto> acme_done],
      scheduler = acme_jobs @ acme_jobs2, started = []\<rparr>"
  by (simp add: confirming_bot_def both_bot_eq start_cancellation_def get_session_state_def
      put_session_def acme_done_def acme_schedule_def confirm_state_def confirm_task_def
      new_task_def s1_first)

lemma lower_yes: "lower example_runtime yes = yes"
  by (simp add: example_runtime_def yes_def)

lemma yes_affirmative: "yes \<in> set affirmatives"
  by (simp add: yes_def affirmatives_def)

lemma clear_acme:
  "clear (Some (U ''Acme'')) (acme_jobs @ acme_jobs2) = []"
  "clear (Some (U ''Acme'')) acme_jobs2 = []"
  by (simp_all add: clear_def acme_jobs_def acme_jobs2_def daily_job_def weekly_job_def)

lemma emptied_bot_eq:
  "emptied_bot =
     \<lparr>conversation_state = [U ''s1'' \<mapsto> acme_done, U ''s2'' \<mapsto> new_session],
      scheduler = [], started = []\<rparr>"
  using yes_affirmative
  by (simp add: emptied_bot_def both_bot_eq start_cancellation_def handle_message_def
      get_session_state_def on_cancellation_confirmation_def put_session_def acme_done_def
      acme_schedule_def new_task_def lower_yes clear_acme new_session_def)

lemma stale_bot_eq:
  "stale_bot =
     \<lparr>conversation_state = [U ''s1'' \<mapsto> confirm_state, U ''s2'' \<mapsto> acme_done],
      scheduler = acme_jobs2, started = []\<rparr>"
  by (simp add: stale_bot_def register_acme_s2 emptied_bot_eq start_cancellation_def
      get_session_state_def put_session_def acme_done_def acme_schedule_def confirm_state_def
      confirm_task_def new_task_def s1_first)

lemma run_job_tags: "tags (run_job rt now j) = tags j"
  by (simp add: run_job_def)

lemma run_pending_keeps:
  assumes "list_all (\<lambda>j. P (tags j)) js"
  shows "list_all (\<lambda>j. P (tags j)) (fst (run_pending rt now js))"
    and "list_all (\<lambda>j. P (tags j)) (snd (run_pending rt now js))"
  using assms by (auto simp add: run_pending_def list_all_iff run_job_tags)

lemma run_scheduler_at_keeps:
  "list_all (\<lambda>j. P (tags j)) js \<Longrightarrow>
   list_all (\<lambda>j. P (tags j)) (fst (run_scheduler_at rt clock js)) \<and>
   list_all (\<lambda>j. P (tags j)) (snd (run_scheduler_at rt clock js))"
proof (induction clock arbitrary: js)
  case Nil
  then show ?case by simp
next
  case (Cons now later)
  obtain ran js1 where step1: "run_pending rt now js = (ran, js1)"
    by (cases "run_pending rt now js")
  obtain ran_later js2 where rest: "run_scheduler_at rt later js1 = (ran_later, js2)"
    by (cases "run_scheduler_at rt later js1")
  have "list_all (\<lambda>j. P (tags j)) ran" and kept: "list_all (\<lambda>j. P (tags j)) js1"
    using run_pending_keeps [OF Cons.prems, of rt now] step1 by simp_all
  moreover have "list_all (\<lambda>j. P (tags j)) ran_later \<and> list_all (\<lambda>j. P (tags j)) js2"
    using Cons.IH [OF kept] rest by simp
  ultimately show ?case
    by (simp add: step1 rest)
qed

lemma clear_untagged: "list_all (\<lambda>j. subj \<notin> tags j) (clear (Some subj) js)"
  by (simp add: clear_def list_all_iff)

lemma jobs_tagged_none:
  "list_all (\<lambda>j. subj \<notin> tags j) js \<Longrightarrow> jobs_tagged s subj js = []"
  by (induction js) (simp_all add: jobs_tagged_def)

lemma confirmation_result:
  "conversation_state b s = Some st \<Longrightarrow> current_task st = Some tk \<Longrightarrow>
   step tk = AwaitingCancellationConfirmation \<Longrightarrow> lower rt user_input \<in> set affirmatives \<Longrightarrow>
   handle_message co rt now s user_input b =
     (Inr (Cancelled (company_to_cancel tk)),
      put_session s
        (st\<lparr>schedules := filter (\<lambda>r. Some (company_name r) \<noteq> company_to_cancel tk) (schedules st),
            current_task := None\<rparr>)
        (b\<lparr>scheduler := clear (company_to_cancel tk) (scheduler b)\<rparr>))"
  by (simp add: handle_message_def get_session_state_def on_cancellation_confirmation_def)

lemma confirming_facts:
  "conversation_state confirming_bot (U ''s1'') = Some confirm_state"
  "current_task confirm_state = Some confirm_task"
  "step confirm_task = AwaitingCancellationConfirmation"
  "company_to_cancel confirm_task = Some (U ''Acme'')"
  "lower example_runtime yes \<in> set affirmatives"
  by (simp_all add: confirming_bot_eq confirm_state_def confirm_task_def lower_yes yes_affirmative)

lemma stale_facts:
  "conversation_state stale_bot (U ''s1'') = Some confirm_state"
  by (simp add: stale_bot_eq)

lemma tagged_s2: "jobs_tagged (U ''s2'') (U ''Acme'') (acme_jobs @ acme_jobs2) = acme_jobs2"
  by (simp add: jobs_tagged_def acme_jobs_def acme_jobs2_def daily_job_def weekly_job_def U_def)

lemma tagged_s1: "jobs_tagged (U ''s1'') (U ''Acme'') acme_jobs2 = []"
  by (simp add: jobs_tagged_def acme_jobs2_def daily_job_def weekly_job_def U_def)

lemma clear_other: "clear (Some (U ''Bolt'')) acme_jobs = acme_jobs"
  by (simp add: clear_def acme_jobs_def daily_job_def weekly_job_def U_def)

text \<open>The scheduler loop does dispatch what is registered: \<open>s2\<close>'s jobs at two clock readings.\<close>

lemma first_runs:
  "first_run example_runtime 0 (Suc 0) (Some (U ''09:00'')) = 32400"
  "first_run example_runtime 0 7 None = 604800"
  "first_run example_runtime 40000 (Suc 0) (Some (U ''09:00'')) = 118800"
  "first_run example_runtime 700000 (Suc 0) (Some (U ''09:00'')) = 723600"
  "first_run example_runtime 700000 7 None = 1304800"
  by (simp_all add: first_run_def example_runtime_def hhmm_seconds_def day_def U_def Let_def)

lemma run_scheduler_example:
  "map job_func (fst (run_scheduler_at example_runtime [40000, 700000] acme_jobs2)) =
     [SendDailySummary (U ''s2'') (U ''Acme''), SendDailySummary (U ''s2'') (U ''Acme''),
      SendWeeklyReport (U ''s2'') (U ''Acme'')] \<and>
   map next_run (snd (run_scheduler_at example_runtime [40000, 700000] acme_jobs2)) =
     [723600, 1304800]"
  by (simp add: acme_jobs2_def daily_job_def weekly_job_def run_pending_def should_run_def
      run_job_def first_runs)

text \<open>
  C5, as the source has it: confirming the cancellation of \<open>subj\<close> in session \<open>s\<close>
  calls \<open>clear(subj)\<close>. After it no job carries both tags of \<open>(s, subj)\<close>, so the Daily
  and the Weekly job are gone, and the scheduler loop, run at any clock readings,
  neither dispatches such a job nor gets one back. \<open>clear(subj)\<close> changes nothing
  when no job carries the tag \<open>subj\<close>.
\<close>

theorem C5_cancel_complete:
  "(conversation_state b s = Some st \<and> current_task st = Some tk \<and>
    step tk = AwaitingCancellationConfirmation \<and> company_to_cancel tk = Some subj \<and>
    lower rt user_input \<in> set affirmatives \<longrightarrow>
      fst (handle_message co rt now s user_input b) = Inr (Cancelled (Some subj)) \<and>
      scheduler (snd (handle_message co rt now s user_input b))
        = clear (Some subj) (scheduler b)) \<and>
   jobs_tagged s subj (clear (Some subj) js) = [] \<and>
   jobs_tagged s subj (fst (run_scheduler_at rt clock (clear (Some subj) js))) = [] \<and>
   jobs_tagged s subj (snd (run_scheduler_at rt clock (clear (Some subj) js))) = [] \<and>
   (list_all (\<lambda>j. subj \<notin> tags j) js \<longrightarrow> clear (Some subj) js = js)"
proof (intro conjI impI)
  assume confirming: "conversation_state b s = Some st \<and> current_task st = Some tk \<and>
    step tk = AwaitingCancellationConfirmation \<and> company_to_cancel tk = Some subj \<and>
    lower rt user_input \<in> set affirmatives"
  then have run: "handle_message co rt now s user_input b =
     (Inr (Cancelled (company_to_cancel tk)),
      put_session s
        (st\<lparr>schedules := filter (\<lambda>r. Some (company_name r) \<noteq> company_to_cancel tk) (schedules st),
            current_task := None\<rparr>)
        (b\<lparr>scheduler := clear (company_to_cancel tk) (scheduler b)\<rparr>))"
    by (intro confirmation_result) simp_all
  show "fst (handle_message co rt now s user_input b) = Inr (Cancelled (Some subj))"
    using confirming by (simp add: run)
  show "scheduler (snd (handle_message co rt now s user_input b)) = clear (Some subj) (scheduler b)"
    using confirming by (simp add: run put_session_def)
next
  show "jobs_tagged s subj (clear (Some subj) js) = []"
    by (rule jobs_tagged_none) (rule clear_untagged)
next
  show "jobs_tagged s subj (fst (run_scheduler_at rt clock (clear (Some subj) js))) = []"
    using run_scheduler_at_keeps [OF clear_untagged] by (intro jobs_tagged_none) blast
next
  show "jobs_tagged s subj (snd (run_scheduler_at rt clock (clear (Some subj) js))) = []"
    using run_scheduler_at_keeps [OF clear_untagged] by (intro jobs_tagged_none) blast
next
  assume "list_all (\<lambda>j. subj \<notin> tags j) js"
  then show "clear (Some subj) js = js"
    by (simp add: clear_def list_all_iff)
qed

theorem C5_cancel_complete_witness:
  "conversation_state confirming_bot (U ''s1'') = Some confirm_state \<and>
   current_task confirm_state = Some confirm_task \<and>
   step confirm_task = AwaitingCancellationConfirmation \<and>
   company_to_cancel confirm_task = Some (U ''Acme'') \<and>
   lower example_runtime yes \<in> set affirmatives \<and>
   fst (handle_message full_store example_runtime 0 (U ''s1'') yes confirming_bot)
     = Inr (Cancelled (Some (U ''Acme''))) \<and>
   scheduler (snd (handle_message full_store example_runtime 0 (U ''s1'') yes confirming_bot))
     = [] \<and>
   list_all (\<lambda>j. U ''Bolt'' \<notin> tags j) acme_jobs \<and>
   clear (Some (U ''Bolt'')) acme_jobs = acme_jobs"
proof -
  have confirming:
    "conversation_state confirming_bot (U ''s1'') = Some confirm_state \<and>
     current_task confirm_state = Some confirm_task \<and>
     step confirm_task = AwaitingCancellationConfirmation \<and>
     company_to_cancel confirm_task = Some (U ''Acme'') \<and>
     lower example_runtime yes \<in> set affirmatives"
    by (intro conjI confirming_facts)
  have untagged: "list_all (\<lambda>j. U ''Bolt'' \<notin> tags j) acme_jobs"
    by (simp add: acme_jobs_def daily_job_def weekly_job_def U_def)
  note cancelled = C5_cancel_complete [where co = full_store and now = 0, THEN conjunct1,
      THEN mp, OF confirming]
  note no_op = C5_cancel_complete [THEN conjunct2, THEN conjunct2, THEN conjunct2,
      THEN conjunct2, THEN mp, OF untagged]
  have "scheduler (snd (handle_message full_store example_runtime 0 (U ''s1'') yes confirming_bot))
     = []"
    using cancelled [THEN conjunct2] by (simp add: confirming_bot_eq clear_acme)
  then show ?thesis
    using cancelled [THEN conjunct1] confirming untagged no_op by simp
qed

text \<open>
  C5 as the claim states it fails in its last part: in \<open>stale_bot\<close> no job is tagged
  \<open>(s1, Acme)\<close>, and yet the cancellation that \<open>s1\<close> confirms is no no-op: it removes
  the two jobs of \<open>s2\<close>.
\<close>

theorem C5_counterexample:
  "jobs_tagged (U ''s1'') (U ''Acme'') (scheduler stale_bot) = [] \<and>
   scheduler stale_bot = acme_jobs2 \<and> length acme_jobs2 = 2 \<and>
   fst (handle_message full_store example_runtime 0 (U ''s1'') yes stale_bot)
     = Inr (Cancelled (Some (U ''Acme''))) \<and>
   scheduler (snd (handle_message full_store example_runtime 0 (U ''s1'') yes stale_bot)) = [] \<and>
   scheduler (snd (handle_message full_store example_runtime 0 (U ''s1'') yes stale_bot))
     \<noteq> scheduler stale_bot"
proof -
  have run: "handle_message full_store example_runtime 0 (U ''s1'') yes stale_bot =
     (Inr (Cancelled (company_to_cancel confirm_task)),
      put_session (U ''s1'')
        (confirm_state\<lparr>schedules :=
             filter (\<lambda>r. Some (company_name r) \<noteq> company_to_cancel confirm_task)
               (schedules confirm_state),
           current_task := None\<rparr>)
        (stale_bot\<lparr>scheduler := clear (company_to_cancel confirm_task) (scheduler stale_bot)\<rparr>))"
    by (rule confirmation_result [OF stale_facts confirming_facts(2,3,5)])
  have jobs: "scheduler stale_bot = acme_jobs2"
    by (simp add: stale_bot_eq)
  show ?thesis
    unfolding run
    by (simp add: jobs tagged_s1 put_session_def confirming_facts(4) clear_acme)
      (simp add: acme_jobs2_def)
qed

text \<open>
  C9: confirming the cancellation of \<open>x\<close> in session \<open>s1\<close> keeps exactly the jobs that
  do not carry the tag \<open>x\<close>. For any other session \<open>s2\<close> no job tagged \<open>(s2, x)\<close> is
  left, in particular not the Daily and the Weekly job that \<open>s2\<close> registered for \<open>x\<close>,
  while the entry of \<open>s2\<close> in the session store, its schedule for \<open>x\<close> included, is
  what it was.
\<close>

theorem C9_cancel_by_subject_tag:
  "conversation_state b s1 = Some st \<Longrightarrow> current_task st = Some tk \<Longrightarrow>
   step tk = AwaitingCancellationConfirmation \<Longrightarrow> company_to_cancel tk = Some x \<Longrightarrow>
   lower rt user_input \<in> set affirmatives \<Longrightarrow> s2 \<noteq> s1 \<Longrightarrow>
   scheduler (snd (handle_message co rt now s1 user_input b))
     = filter (\<lambda>j. x \<notin> tags j) (scheduler b) \<and>
   jobs_tagged s2 x (scheduler (snd (handle_message co rt now s1 user_input b))) = [] \<and>
   daily_job rt2 now2 s2 x t \<notin> set (scheduler (snd (handle_message co rt now s1 user_input b))) \<and>
   weekly_job rt2 now2 s2 x \<notin> set (scheduler (snd (handle_message co rt now s1 user_input b))) \<and>
   conversation_state (snd (handle_message co rt now s1 user_input b)) s2
     = conversation_state b s2"
  by (simp add: confirmation_result put_session_def clear_def jobs_tagged_def daily_job_def
      weekly_job_def)

theorem C9_cancel_by_subject_tag_witness:
  "conversation_state confirming_bot (U ''s1'') = Some confirm_state \<and>
   current_task confirm_state = Some confirm_task \<and>
   step confirm_task = AwaitingCancellationConfirmation \<and>
   company_to_cancel confirm_task = Some (U ''Acme'') \<and>
   lower example_runtime yes \<in> set affirmatives \<and> U ''s2'' \<noteq> U ''s1'' \<and>
   jobs_tagged (U ''s2'') (U ''Acme'') (scheduler confirming_bot) = acme_jobs2 \<and>
   jobs_tagged (U ''s2'') (U ''Acme'')
     (scheduler (snd (handle_message full_store example_runtime 0 (U ''s1'') yes confirming_bot)))
     = [] \<and>
   conversation_state
     (snd (handle_message full_store example_runtime 0 (U ''s1'') yes confirming_bot)) (U ''s2'')
     = Some acme_done"
proof -
  note after = C9_cancel_by_subject_tag [OF confirming_facts s1_s2(2),
      where co = full_store and now = 0]
  have before: "jobs_tagged (U ''s2'') (U ''Acme'') (scheduler confirming_bot) = acme_jobs2"
    by (simp add: confirming_bot_eq tagged_s2)
  have kept: "conversation_state confirming_bot (U ''s2'') = Some acme_done"
    by (simp add: confirming_bot_eq)
  show ?thesis
    using after [THEN conjunct2, THEN conjunct1]
      after [THEN conjunct2, THEN conjunct2, THEN conjunct2, THEN conjunct2]
      before kept confirming_facts s1_s2(2)
    by simp
qed

end
